theory Spec2Isabelle
  imports Main
begin

section \<open>Data model of the wallet connector\<close>

text \<open>
  The TypeScript enum \<^verbatim>\<open>WalletType\<close>. Its members are the strings
  \<^verbatim>\<open>'hashpack'\<close>, \<^verbatim>\<open>'metamask'\<close> and \<^verbatim>\<open>'walletconnect'\<close>.
\<close>

datatype WalletType = HASHPACK | METAMASK | WALLETCONNECT

fun WalletType_string :: "WalletType \<Rightarrow> string" where
  "WalletType_string HASHPACK = ''hashpack''"
| "WalletType_string METAMASK = ''metamask''"
| "WalletType_string WALLETCONNECT = ''walletconnect''"

text \<open>
  JSON values as trees. Numbers are restricted to integers (the only number of a
  connection is its chain id). An object is the list of its members in order.
\<close>

datatype json =
    JNull
  | JBool bool
  | JNumber int
  | JString string
  | JArray "json list"
  | JObject "(string \<times> json) list"

text \<open>
  The \<^verbatim>\<open>signer\<close> and \<^verbatim>\<open>provider\<close> members of a connection are objects of the
  ethers library. Such an object is modelled by the data \<^verbatim>\<open>JSON.stringify\<close> sees in it
  (\<open>image\<close>) and by whether it still carries its methods (\<open>live\<close>): an object
  built by \<^verbatim>\<open>new ethers.BrowserProvider\<close> or \<^verbatim>\<open>getSigner\<close> is live, the plain
  data \<^verbatim>\<open>JSON.parse\<close> puts in its place is not.
\<close>

datatype handle = Handle (live: bool) (image: json)

text \<open>
  A value that is either \<^verbatim>\<open>NaN\<close> or a value of JSON, and the value of a call of
  \<^verbatim>\<open>parseInt\<close> (whose result is modelled as an \<open>int option\<close>, \<open>None\<close> for
  \<^verbatim>\<open>NaN\<close>).
\<close>

datatype js_value = JsNaN | Js json

definition number_value :: "int option \<Rightarrow> js_value" where
  "number_value n = (case n of None \<Rightarrow> JsNaN | Some i \<Rightarrow> Js (JNumber i))"

text \<open>
  The interface \<^verbatim>\<open>WalletConnection\<close>. The members the interface marks optional are
  options; \<open>wtype\<close>, \<open>accountId\<close> and \<open>address\<close> are options too, because
  \<^verbatim>\<open>loadSavedConnection\<close> assigns the result of \<^verbatim>\<open>JSON.parse\<close> unchecked, so that at
  run time any member can be \<^verbatim>\<open>undefined\<close>. No method reads \<open>chainId\<close>; it holds
  whatever was put there: the number or the \<^verbatim>\<open>NaN\<close> that \<^verbatim>\<open>parseInt\<close> returned, or
  the value \<^verbatim>\<open>JSON.parse\<close> found under that key.
\<close>

record WalletConnection =
  wtype :: "WalletType option"
  accountId :: "string option"
  address :: "string option"
  signer :: "handle option"
  provider :: "handle option"
  balance :: "string option"
  network :: "string option"
  chainId :: "js_value option"

text \<open>A thrown JavaScript value: whether it is an \<^verbatim>\<open>Error\<close> instance, its
  \<^verbatim>\<open>code\<close> member when it has one, and its \<^verbatim>\<open>message\<close>.\<close>

datatype js_error = JsError (is_Error: bool) (err_code: "int option") (err_message: string)

abbreviation Error :: "string \<Rightarrow> js_error" where
  "Error msg \<equiv> JsError True None msg"

text \<open>Calling a method on a value that does not have it.\<close>

definition TypeError :: js_error where
  "TypeError = JsError True None ''TypeError''"

text \<open>The calls of \<^verbatim>\<open>emit(event, data)\<close>, with their payloads. (The class hands each
  call to the listeners registered for the event; the log of calls is what they see.)\<close>

datatype event =
    Ev_connected "WalletConnection option"
  | Ev_disconnected "WalletConnection option"
  | Ev_accountsChanged "string list"
  | Ev_chainChanged string
  | Ev_networkMismatch string string
  | Ev_accountChanged WalletConnection

text \<open>The interface \<^verbatim>\<open>WalletProvider\<close>: every method is optional.\<close>

record WalletProvider =
  has_connect :: bool
  has_disconnect :: bool
  has_request :: bool
  has_on :: bool

text \<open>The injected provider \<^verbatim>\<open>window.ethereum\<close> and the answers it gives. A request
  either resolves or rejects; \<^verbatim>\<open>eth_requestAccounts\<close>, which is raced against a 30 s
  timer, may also stay pending. \<open>eth_chainId_probe\<close> is the answer to the first
  \<^verbatim>\<open>eth_chainId\<close> request of \<^verbatim>\<open>connectMetaMask\<close>, which is only logged.\<close>

datatype 'a settled = Resolved 'a | Rejected js_error | Pending

record ethereum =
  isMetaMask :: bool
  request_is_function :: bool
  eth_chainId_probe :: "js_error + string option"
  eth_requestAccounts :: "string list option settled"
  eth_chainId :: "js_error + string option"
  wallet_switchEthereumChain :: "js_error + unit"
  wallet_addEthereumChain :: "js_error + unit"
  eth_accounts :: "js_error + string list option"

text \<open>
  Everything outside the class: the browser, the process environment, the wallet
  backends and the libraries. \<open>has_window\<close> is \<^verbatim>\<open>typeof window !== 'undefined'\<close>.
  \<open>JSON_stringify\<close> and \<open>JSON_parse\<close> are the text layer of the built-in
  \<^verbatim>\<open>JSON\<close> object (\<open>None\<close> is a thrown \<^verbatim>\<open>SyntaxError\<close>).
  \<open>ethers_getBalance\<close> is \<^verbatim>\<open>provider.getBalance\<close> followed by
  \<^verbatim>\<open>ethers.formatEther\<close>; \<open>new_Client\<close> is \<^verbatim>\<open>new Client({network})\<close> of the
  ledger SDK, which can throw; \<open>hedera_balance\<close> is \<^verbatim>\<open>AccountId.fromString\<close>, the
  \<^verbatim>\<open>AccountBalanceQuery\<close> and \<^verbatim>\<open>hbars.toString()\<close>; \<open>hashpack_signers\<close> are
  the account identifiers \<^verbatim>\<open>getAccountId().toString()\<close> of the connector's signers.
  Every awaited call settles: it returns (\<open>Inr\<close>) or throws (\<open>Inl\<close>).
\<close>

record env =
  has_window :: bool
  NEXT_PUBLIC_HEDERA_NETWORK :: "string option"
  NEXT_PUBLIC_METAMASK_CHAIN_ID :: "string option"
  NEXT_PUBLIC_WALLETCONNECT_PROJECT_ID :: "string option"
  JSON_stringify :: "json \<Rightarrow> string"
  JSON_parse :: "string \<Rightarrow> json option"
  window_ethereum :: "ethereum option"
  new_BrowserProvider :: "WalletType \<Rightarrow> handle"
  ethers_getSigner :: "handle \<Rightarrow> js_error + handle"
  ethers_getBalance :: "handle \<Rightarrow> string option \<Rightarrow> js_error + string"
  new_Client :: "string \<Rightarrow> js_error + unit"
  hedera_balance :: "string option \<Rightarrow> js_error + string"
  hashpack_init :: "js_error + unit"
  hashpack_connectExtension :: "js_error + unit"
  hashpack_signers :: "string list"
  EthereumProvider_init :: "js_error + WalletProvider"
  wc_connect :: "js_error + unit"
  wc_eth_accounts :: "js_error + string list"
  wc_disconnect :: "js_error + unit"

text \<open>The private members of \<^verbatim>\<open>WalletConnector\<close>, the storage of the page, the log of
  \<^verbatim>\<open>emit\<close> calls, and how many times the listeners have been registered on
  \<^verbatim>\<open>window.ethereum\<close> and on the current relay provider (each call of a setup method
  registers them once more).\<close>

record state =
  connection :: "WalletConnection option"
  localStorage :: "string \<rightharpoonup> string"
  emitted :: "event list"
  hederaClient :: bool
  walletConnectProvider :: "WalletProvider option"
  hashPackConnector :: bool
  hederaWalletConnectProvider :: bool
  ethereum_listeners :: nat
  walletConnect_listeners :: nat

definition storage_key :: string where
  "storage_key = ''talentchain_wallet_connection''"

section \<open>Helpers of the language\<close>

text \<open>\<^verbatim>\<open>x || d\<close> on an optional string: \<^verbatim>\<open>undefined\<close> and the empty string are falsy.\<close>

fun or_default :: "string option \<Rightarrow> string \<Rightarrow> string" where
  "or_default None d = d"
| "or_default (Some s) d = (if s = [] then d else s)"

text \<open>\<^verbatim>\<open>String.prototype.includes\<close>.\<close>

fun starts_with :: "string \<Rightarrow> string \<Rightarrow> bool" where
  "starts_with s [] = True"
| "starts_with [] (p # ps) = False"
| "starts_with (c # cs) (p # ps) = (c = p \<and> starts_with cs ps)"

fun str_includes :: "string \<Rightarrow> string \<Rightarrow> bool" where
  "str_includes [] p = (p = [])"
| "str_includes (c # cs) p = (starts_with (c # cs) p \<or> str_includes cs p)"

text \<open>\<^verbatim>\<open>String.prototype.toLowerCase\<close> on the ASCII letters.\<close>

definition lower_char :: "char \<Rightarrow> char" where
  "lower_char c =
     (let n = of_char c :: nat in if 65 \<le> n \<and> n \<le> 90 then char_of (n + 32) else c)"

definition toLowerCase :: "string \<Rightarrow> string" where
  "toLowerCase s = map lower_char s"

section \<open>Events and persistence\<close>

definition emit :: "event \<Rightarrow> state \<Rightarrow> state" where
  "emit e s = s\<lparr>emitted := emitted s @ [e]\<rparr>"

text \<open>The getter \<^verbatim>\<open>ethereum\<close>.\<close>

definition get_ethereum :: "env \<Rightarrow> ethereum option" where
  "get_ethereum E = (if has_window E then window_ethereum E else None)"

text \<open>
  What \<^verbatim>\<open>JSON.stringify\<close> walks through in a connection: the members that are
  defined, every one of them, \<open>signer\<close> and \<open>provider\<close> included (here in the order
  of the object literal that builds a connection). A \<^verbatim>\<open>NaN\<close> is written as
  \<^verbatim>\<open>null\<close>.
\<close>

definition value_json :: "js_value \<Rightarrow> json" where
  "value_json v = (case v of JsNaN \<Rightarrow> JNull | Js j \<Rightarrow> j)"

definition object_member :: "string \<Rightarrow> ('a \<Rightarrow> json) \<Rightarrow> 'a option \<Rightarrow> (string \<times> json) list" where
  "object_member k f v = (case v of None \<Rightarrow> [] | Some x \<Rightarrow> [(k, f x)])"

definition connection_json :: "WalletConnection \<Rightarrow> json" where
  "connection_json c = JObject
     (object_member ''type'' (\<lambda>t. JString (WalletType_string t)) (wtype c) @
      object_member ''accountId'' JString (accountId c) @
      object_member ''address'' JString (address c) @
      object_member ''signer'' image (signer c) @
      object_member ''provider'' image (provider c) @
      object_member ''balance'' JString (balance c) @
      object_member ''network'' JString (network c) @
      object_member ''chainId'' value_json (chainId c))"

definition saveConnection :: "env \<Rightarrow> state \<Rightarrow> state" where
  "saveConnection E s =
     (case connection s of
        Some c \<Rightarrow>
          if has_window E
          then s\<lparr>localStorage := (localStorage s)(storage_key \<mapsto> JSON_stringify E (connection_json c))\<rparr>
          else s
      | None \<Rightarrow> s)"

definition clearSavedConnection :: "env \<Rightarrow> state \<Rightarrow> state" where
  "clearSavedConnection E s =
     (if has_window E then s\<lparr>localStorage := (localStorage s)(storage_key := None)\<rparr> else s)"

section \<open>Disconnecting and the balance\<close>

text \<open>
  \<^verbatim>\<open>disconnect()\<close>. The only call that can throw is the awaited
  \<^verbatim>\<open>walletConnectProvider.disconnect()\<close>, before anything has been changed.
\<close>

definition disconnect :: "env \<Rightarrow> state \<Rightarrow> (js_error + unit) \<times> state" where
  "disconnect E s =
     (case connection s of
        None \<Rightarrow> (Inr (), s)
      | Some c \<Rightarrow>
          let teardown =
                (if wtype c = Some HASHPACK then (Inr (), s)
                 else if wtype c = Some WALLETCONNECT \<and>
                         (case walletConnectProvider s of None \<Rightarrow> False | Some p \<Rightarrow> has_disconnect p)
                 then (wc_disconnect E, s)
                 else if wtype c = Some METAMASK
                 then (Inr (), if get_ethereum E \<noteq> None then s\<lparr>ethereum_listeners := 0\<rparr> else s)
                 else (Inr (), s))
          in case teardown of
               (Inl e, s1) \<Rightarrow> (Inl e, s1)
             | (Inr _, s1) \<Rightarrow>
                 let s2 = clearSavedConnection E (s1\<lparr>connection := None\<rparr>);
                     s3 = (if wtype c = Some METAMASK then s2\<lparr>walletConnectProvider := None\<rparr> else s2)
                 in (Inr (), emit (Ev_disconnected (Some c)) s3))"

text \<open>\<^verbatim>\<open>resetConnectionState()\<close>.\<close>

definition resetConnectionState :: "env \<Rightarrow> state \<Rightarrow> state" where
  "resetConnectionState E s =
     emit (Ev_disconnected None)
       (clearSavedConnection E
          (s\<lparr>connection := None, walletConnectProvider := None, hashPackConnector := False,
             hederaWalletConnectProvider := False\<rparr>))"

text \<open>A method call on a handle: a \<^verbatim>\<open>TypeError\<close> when the handle is plain data.\<close>

definition provider_getBalance :: "env \<Rightarrow> handle \<Rightarrow> string option \<Rightarrow> js_error + string" where
  "provider_getBalance E h a = (if live h then ethers_getBalance E h a else Inl TypeError)"

definition provider_getSigner :: "env \<Rightarrow> handle \<Rightarrow> js_error + handle" where
  "provider_getSigner E h = (if live h then ethers_getSigner E h else Inl TypeError)"

text \<open>\<^verbatim>\<open>getBalance()\<close>: the body of the \<^verbatim>\<open>try\<close>, then the method with its
  \<^verbatim>\<open>catch\<close>.\<close>

definition getBalance_try :: "env \<Rightarrow> state \<Rightarrow> WalletConnection \<Rightarrow> js_error + string" where
  "getBalance_try E s c =
     (if wtype c = Some HASHPACK
      then (if hederaClient s then hedera_balance E (accountId c)
            else Inr (or_default (balance c) ''0''))
      else (case provider c of
              Some p \<Rightarrow> provider_getBalance E p (address c)
            | None \<Rightarrow> Inr (or_default (balance c) ''0'')))"

definition getBalance :: "env \<Rightarrow> state \<Rightarrow> js_error + string" where
  "getBalance E s =
     (case connection s of
        None \<Rightarrow> Inl (Error ''No wallet connected'')
      | Some c \<Rightarrow>
          (case getBalance_try E s c of
             Inr b \<Rightarrow> Inr b
           | Inl e \<Rightarrow> Inr ''0''))"

section \<open>Numbers and text\<close>

text \<open>
  \<^verbatim>\<open>parseInt(string, radix)\<close>: leading white space is skipped, a sign is read, the prefix
  \<^verbatim>\<open>0x\<close> is stripped when the radix is absent or 16, and the longest run of digits of
  the radix is the value; \<open>None\<close> is \<^verbatim>\<open>NaN\<close>. Values are exact integers (the
  source's numbers are doubles, exact below \<open>2 ^ 53\<close>).
\<close>

definition is_space :: "char \<Rightarrow> bool" where
  "is_space c = (c \<in> set [CHR '' '', CHR 0x09, CHR 0x0A, CHR 0x0B, CHR 0x0C, CHR 0x0D])"

definition digit_val :: "char \<Rightarrow> nat option" where
  "digit_val c =
     (let n = of_char c :: nat in
      if 48 \<le> n \<and> n \<le> 57 then Some (n - 48)
      else if 97 \<le> n \<and> n \<le> 122 then Some (n - 87)
      else if 65 \<le> n \<and> n \<le> 90 then Some (n - 55)
      else None)"

definition is_digit :: "nat \<Rightarrow> char \<Rightarrow> bool" where
  "is_digit r c = (case digit_val c of None \<Rightarrow> False | Some d \<Rightarrow> d < r)"

definition digits_value :: "nat \<Rightarrow> string \<Rightarrow> nat" where
  "digits_value r ds = foldl (\<lambda>acc c. acc * r + the (digit_val c)) 0 ds"

definition parseInt :: "string \<Rightarrow> nat option \<Rightarrow> int option" where
  "parseInt str radix =
     (let s0 = dropWhile is_space str;
          neg = (case s0 of c # _ \<Rightarrow> c = CHR ''-'' | [] \<Rightarrow> False);
          s1 = (case s0 of c # cs \<Rightarrow> if c = CHR ''-'' \<or> c = CHR ''+'' then cs else s0 | [] \<Rightarrow> s0);
          r0 = (case radix of None \<Rightarrow> 0 | Some r \<Rightarrow> r)
      in if r0 \<noteq> 0 \<and> (r0 < 2 \<or> 36 < r0) then None
         else
           let strip = (r0 = 0 \<or> r0 = 16);
               hex = (strip \<and> (starts_with s1 ''0x'' \<or> starts_with s1 ''0X''));
               s2 = (if hex then drop 2 s1 else s1);
               r = (if hex then 16 else if r0 = 0 then 10 else r0);
               z = takeWhile (is_digit r) s2
           in if z = [] then None
              else Some (if neg then - int (digits_value r z) else int (digits_value r z)))"

text \<open>\<^verbatim>\<open>Number.prototype.toString(radix)\<close> on an integer or \<^verbatim>\<open>NaN\<close>.\<close>

definition digit_char :: "nat \<Rightarrow> char" where
  "digit_char d = (if d < 10 then char_of (48 + d) else char_of (87 + d))"

function digits_of :: "nat \<Rightarrow> nat \<Rightarrow> string" where
  "digits_of r n = (if n < r \<or> r < 2 then [digit_char n] else digits_of r (n div r) @ [digit_char (n mod r)])"
  by pat_completeness auto
termination
  by (relation "measure (\<lambda>(r, n). n)") auto

declare digits_of.simps [simp del]

definition Number_toString :: "int option \<Rightarrow> nat \<Rightarrow> string" where
  "Number_toString n r =
     (case n of
        None \<Rightarrow> ''NaN''
      | Some i \<Rightarrow> if i < 0 then CHR ''-'' # digits_of r (nat (- i)) else digits_of r (nat i))"

section \<open>Configuration\<close>

record currency =
  cur_name :: string
  cur_symbol :: string
  cur_decimals :: nat

record NetworkConfig =
  nc_chainId :: int
  nc_name :: string
  nc_rpcUrl :: string
  nc_currency :: currency
  nc_blockExplorerUrl :: string

definition HEDERA_NETWORKS :: "string \<Rightarrow> NetworkConfig option" where
  "HEDERA_NETWORKS k =
     (if k = ''testnet'' then Some
        \<lparr>nc_chainId = 296, nc_name = ''Hedera Testnet'', nc_rpcUrl = ''https://testnet.hashio.io/api'',
         nc_currency = \<lparr>cur_name = ''HBAR'', cur_symbol = ''HBAR'', cur_decimals = 18\<rparr>,
         nc_blockExplorerUrl = ''https://hashscan.io/testnet''\<rparr>
      else if k = ''mainnet'' then Some
        \<lparr>nc_chainId = 295, nc_name = ''Hedera Mainnet'', nc_rpcUrl = ''https://mainnet.hashio.io/api'',
         nc_currency = \<lparr>cur_name = ''HBAR'', cur_symbol = ''HBAR'', cur_decimals = 18\<rparr>,
         nc_blockExplorerUrl = ''https://hashscan.io/mainnet''\<rparr>
      else None)"

text \<open>\<^verbatim>\<open>process.env.NEXT_PUBLIC_METAMASK_CHAIN_ID || '296'\<close> and
  \<^verbatim>\<open>process.env.NEXT_PUBLIC_HEDERA_NETWORK || 'testnet'\<close>.\<close>

definition expectedChainId :: "env \<Rightarrow> string" where
  "expectedChainId E = or_default (NEXT_PUBLIC_METAMASK_CHAIN_ID E) ''296''"

definition hedera_network :: "env \<Rightarrow> string" where
  "hedera_network E = or_default (NEXT_PUBLIC_HEDERA_NETWORK E) ''testnet''"

section \<open>Listeners of the backends\<close>

text \<open>Sequencing of calls that can throw.\<close>

definition andThen :: "'e + 'a \<Rightarrow> ('a \<Rightarrow> 'e + 'b) \<Rightarrow> 'e + 'b" where
  "andThen r f = (case r of Inl e \<Rightarrow> Inl e | Inr x \<Rightarrow> f x)"

text \<open>\<^verbatim>\<open>ethereum.request(...)\<close>: a \<^verbatim>\<open>TypeError\<close> when \<^verbatim>\<open>request\<close> is not a function.\<close>

definition request :: "ethereum \<Rightarrow> js_error + 'a \<Rightarrow> js_error + 'a" where
  "request eth answer = (if request_is_function eth then answer else Inl TypeError)"

text \<open>
  A call of an \<^verbatim>\<open>async\<close> method that the caller does not await runs up to its first
  \<^verbatim>\<open>await\<close> at once; the rest runs later. Such a call is modelled by the state after
  the first part and the rest as a function of the state it finds when it resumes (the
  identity when the method has finished in its first part).
\<close>

type_synonym unawaited = "state \<times> (state \<Rightarrow> state)"

text \<open>
  \<^verbatim>\<open>disconnect()\<close> not awaited. It suspends only at
  \<^verbatim>\<open>await this.walletConnectProvider.disconnect()\<close>; when that call rejects, the rest
  of the method never runs. (What the provider itself does during the teardown, such as
  emitting an event of its own, is outside this model.)
\<close>

definition awaits_teardown :: "state \<Rightarrow> WalletConnection \<Rightarrow> bool" where
  "awaits_teardown s c =
     (wtype c = Some WALLETCONNECT \<and>
      (case walletConnectProvider s of None \<Rightarrow> False | Some p \<Rightarrow> has_disconnect p))"

definition disconnect_finish :: "env \<Rightarrow> WalletConnection \<Rightarrow> state \<Rightarrow> state" where
  "disconnect_finish E c s1 =
     (let s2 = clearSavedConnection E (s1\<lparr>connection := None\<rparr>);
          s3 = (if wtype c = Some METAMASK then s2\<lparr>walletConnectProvider := None\<rparr> else s2)
      in emit (Ev_disconnected (Some c)) s3)"

definition disconnect_unawaited :: "env \<Rightarrow> state \<Rightarrow> unawaited" where
  "disconnect_unawaited E s =
     (case connection s of
        None \<Rightarrow> (s, \<lambda>s'. s')
      | Some c \<Rightarrow>
          if awaits_teardown s c
          then (s, \<lambda>s'. case wc_disconnect E of Inl e \<Rightarrow> s' | Inr _ \<Rightarrow> disconnect_finish E c s')
          else (snd (disconnect E s), \<lambda>s'. s'))"

text \<open>
  \<^verbatim>\<open>updateConnection(newAccount)\<close>; every error in it is caught and logged. It suspends
  at \<^verbatim>\<open>getSigner()\<close>; what follows reads \<^verbatim>\<open>this.connection\<close> again (the two later
  awaits are taken in one step).
\<close>

definition updateConnection_resume :: "env \<Rightarrow> string \<Rightarrow> js_error + handle \<Rightarrow> state \<Rightarrow> state" where
  "updateConnection_resume E newAccount got_signer s =
     (case got_signer of
        Inl e \<Rightarrow> s
      | Inr sg \<Rightarrow>
          (case connection s of
             None \<Rightarrow> s
           | Some c \<Rightarrow>
               (case provider c of
                  None \<Rightarrow> s
                | Some p \<Rightarrow>
                    (case provider_getBalance E p (Some newAccount) of
                       Inl e \<Rightarrow> s
                     | Inr balanceInEther \<Rightarrow>
                         let updatedConnection =
                               c\<lparr>accountId := Some newAccount, address := Some newAccount,
                                 signer := Some sg, balance := Some balanceInEther\<rparr>
                         in emit (Ev_accountChanged updatedConnection)
                              (saveConnection E (s\<lparr>connection := Some updatedConnection\<rparr>))))))"

definition updateConnection_unawaited :: "env \<Rightarrow> string \<Rightarrow> state \<Rightarrow> unawaited" where
  "updateConnection_unawaited E newAccount s =
     (case connection s of
        None \<Rightarrow> (s, \<lambda>s'. s')
      | Some c \<Rightarrow>
          (case (wtype c = Some METAMASK, provider c) of
             (True, Some p) \<Rightarrow> (s, updateConnection_resume E newAccount (provider_getSigner E p))
           | _ \<Rightarrow> (s, \<lambda>s'. s')))"

definition updateConnection :: "env \<Rightarrow> string \<Rightarrow> state \<Rightarrow> state" where
  "updateConnection E newAccount s = (case updateConnection_unawaited E newAccount s of (s1, rest) \<Rightarrow> rest s1)"

text \<open>
  A notification of a backend calls every registered listener in turn, as many times as
  it has been registered (the list of listeners is the one at the time of the
  notification); what the listeners left suspended resumes afterwards, in the same order.
\<close>

fun run_listeners :: "nat \<Rightarrow> (state \<Rightarrow> unawaited) \<Rightarrow> state \<Rightarrow> state \<times> (state \<Rightarrow> state) list" where
  "run_listeners 0 h s = (s, [])"
| "run_listeners (Suc n) h s =
     (case h s of (s1, rest) \<Rightarrow> (case run_listeners n h s1 of (s2, rests) \<Rightarrow> (s2, rest # rests)))"

definition dispatch :: "nat \<Rightarrow> (state \<Rightarrow> unawaited) \<Rightarrow> state \<Rightarrow> state" where
  "dispatch n h s = (case run_listeners n h s of (s1, rests) \<Rightarrow> fold (\<lambda>rest. rest) rests s1)"

text \<open>
  The listeners \<^verbatim>\<open>setupMetaMaskListeners\<close> registers on \<^verbatim>\<open>window.ethereum\<close>:
  \<open>accountsChanged_listener\<close> (the relay provider gets the same code) and
  \<open>metamask_on_chainChanged\<close>. The promises of \<^verbatim>\<open>disconnect()\<close> and
  \<^verbatim>\<open>updateConnection()\<close> are not awaited, and a rejection is lost.
\<close>

definition setupMetaMaskListeners :: "env \<Rightarrow> state \<Rightarrow> state" where
  "setupMetaMaskListeners E s =
     (if get_ethereum E \<noteq> None then s\<lparr>ethereum_listeners := Suc (ethereum_listeners s)\<rparr> else s)"

definition accountsChanged_listener :: "env \<Rightarrow> string list \<Rightarrow> state \<Rightarrow> unawaited" where
  "accountsChanged_listener E accountArray s =
     (let s1 = emit (Ev_accountsChanged accountArray) s in
      case accountArray of
        [] \<Rightarrow> disconnect_unawaited E s1
      | a # _ \<Rightarrow> updateConnection_unawaited E a s1)"

definition metamask_on_chainChanged :: "env \<Rightarrow> string \<Rightarrow> state \<Rightarrow> state" where
  "metamask_on_chainChanged E chainIdStr s =
     (let s1 = emit (Ev_chainChanged chainIdStr) s in
      if Number_toString (parseInt chainIdStr (Some 16)) 10 \<noteq> expectedChainId E
      then emit (Ev_networkMismatch chainIdStr (expectedChainId E)) s1
      else s1)"

definition ethereum_accountsChanged :: "env \<Rightarrow> string list \<Rightarrow> state \<Rightarrow> state" where
  "ethereum_accountsChanged E accounts s =
     dispatch (ethereum_listeners s) (accountsChanged_listener E accounts) s"

definition ethereum_chainChanged :: "env \<Rightarrow> string \<Rightarrow> state \<Rightarrow> state" where
  "ethereum_chainChanged E chainIdStr s =
     dispatch (ethereum_listeners s) (\<lambda>s1. (metamask_on_chainChanged E chainIdStr s1, \<lambda>s'. s')) s"

text \<open>The listeners \<^verbatim>\<open>setupWalletConnectListeners\<close> registers on the relay provider.\<close>

definition setupWalletConnectListeners :: "state \<Rightarrow> state" where
  "setupWalletConnectListeners s =
     (case walletConnectProvider s of
        Some p \<Rightarrow> if has_on p then s\<lparr>walletConnect_listeners := Suc (walletConnect_listeners s)\<rparr> else s
      | None \<Rightarrow> s)"

definition walletconnect_on_chainChanged :: "env \<Rightarrow> string \<Rightarrow> state \<Rightarrow> state" where
  "walletconnect_on_chainChanged E chainIdStr s = emit (Ev_chainChanged chainIdStr) s"

definition walletconnect_accountsChanged :: "env \<Rightarrow> string list \<Rightarrow> state \<Rightarrow> state" where
  "walletconnect_accountsChanged E accounts s =
     dispatch (walletConnect_listeners s) (accountsChanged_listener E accounts) s"

definition walletconnect_chainChanged :: "env \<Rightarrow> string \<Rightarrow> state \<Rightarrow> state" where
  "walletconnect_chainChanged E chainIdStr s =
     dispatch (walletConnect_listeners s) (\<lambda>s1. (walletconnect_on_chainChanged E chainIdStr s1, \<lambda>s'. s')) s"

definition walletconnect_disconnected :: "env \<Rightarrow> state \<Rightarrow> state" where
  "walletconnect_disconnected E s = dispatch (walletConnect_listeners s) (disconnect_unawaited E) s"

section \<open>The restore check\<close>

text \<open>\<^verbatim>\<open>canRestoreConnection()\<close>: the body of the \<^verbatim>\<open>try\<close>, then the method.\<close>

definition canRestoreConnection_try :: "env \<Rightarrow> WalletConnection \<Rightarrow> js_error + bool" where
  "canRestoreConnection_try E c =
     (if wtype c = Some METAMASK then
        (case get_ethereum E of
           None \<Rightarrow> Inr False
         | Some eth \<Rightarrow>
             if \<not> isMetaMask eth then Inr False
             else andThen (request eth (eth_accounts eth)) (\<lambda>accounts.
               case accounts of
                 Some (a # _) \<Rightarrow>
                   (case address c of
                      None \<Rightarrow> Inl TypeError
                    | Some saved \<Rightarrow> Inr (toLowerCase a = toLowerCase saved))
               | _ \<Rightarrow> Inr False))
      else Inr False)"

definition canRestoreConnection :: "env \<Rightarrow> state \<Rightarrow> bool" where
  "canRestoreConnection E s =
     (case connection s of
        None \<Rightarrow> False
      | Some c \<Rightarrow> (case canRestoreConnection_try E c of Inr b \<Rightarrow> b | Inl e \<Rightarrow> False))"

section \<open>Loading and restoring the saved connection\<close>

text \<open>
  How the value \<^verbatim>\<open>JSON.parse\<close> returns reads as a connection. \<open>truthy\<close> is the
  test of \<^verbatim>\<open>if (this.connection)\<close>; a value that fails it is kept as no connection
  (every method of the class tests the member for truth, only \<^verbatim>\<open>isConnected\<close> compares
  it with \<^verbatim>\<open>null\<close>). The members the methods read (\<open>type\<close>, \<open>accountId\<close>,
  \<open>address\<close>, \<open>balance\<close>, \<open>network\<close>) are kept when they are strings, as every
  connection built by this class has them, and read as \<^verbatim>\<open>undefined\<close> otherwise;
  \<open>chainId\<close> is kept whatever it is; of duplicate keys the last one counts. A stored
  \<open>signer\<close> or \<open>provider\<close> comes back as plain data without methods; a falsy one is
  read as absent, which is how every method treats it.
\<close>

fun truthy :: "json \<Rightarrow> bool" where
  "truthy JNull = False"
| "truthy (JBool b) = b"
| "truthy (JNumber n) = (n \<noteq> 0)"
| "truthy (JString s) = (s \<noteq> [])"
| "truthy (JArray xs) = True"
| "truthy (JObject kvs) = True"

definition WalletType_of_string :: "string \<Rightarrow> WalletType option" where
  "WalletType_of_string t =
     (if t = ''hashpack'' then Some HASHPACK
      else if t = ''metamask'' then Some METAMASK
      else if t = ''walletconnect'' then Some WALLETCONNECT
      else None)"

definition get_member :: "(string \<times> json) list \<Rightarrow> string \<Rightarrow> json option" where
  "get_member kvs k = map_of (rev kvs) k"

definition string_member :: "(string \<times> json) list \<Rightarrow> string \<Rightarrow> string option" where
  "string_member kvs k = (case get_member kvs k of Some (JString v) \<Rightarrow> Some v | _ \<Rightarrow> None)"

definition handle_member :: "(string \<times> json) list \<Rightarrow> string \<Rightarrow> handle option" where
  "handle_member kvs k =
     (case get_member kvs k of
        Some j \<Rightarrow> if truthy j then Some (Handle False j) else None
      | None \<Rightarrow> None)"

definition members_of :: "json \<Rightarrow> (string \<times> json) list" where
  "members_of j = (case j of JObject kvs \<Rightarrow> kvs | _ \<Rightarrow> [])"

definition connection_of_json :: "json \<Rightarrow> WalletConnection option" where
  "connection_of_json j =
     (if \<not> truthy j then None
      else let kvs = members_of j in Some
        \<lparr>wtype = (case string_member kvs ''type'' of Some t \<Rightarrow> WalletType_of_string t | None \<Rightarrow> None),
         accountId = string_member kvs ''accountId'',
         address = string_member kvs ''address'',
         signer = handle_member kvs ''signer'',
         provider = handle_member kvs ''provider'',
         balance = string_member kvs ''balance'',
         network = string_member kvs ''network'',
         chainId = map_option Js (get_member kvs ''chainId'')\<rparr>)"

text \<open>\<^verbatim>\<open>restoreHashPackConnection()\<close>: \<^verbatim>\<open>isHashPackInstalled()\<close> is true in a
  browser, and the method is only called there.\<close>

definition isHashPackInstalled :: "env \<Rightarrow> bool" where
  "isHashPackInstalled E = has_window E"

definition restoreHashPackConnection :: "env \<Rightarrow> state \<Rightarrow> state" where
  "restoreHashPackConnection E s =
     (if isHashPackInstalled E then emit (Ev_connected (connection s)) s
      else clearSavedConnection E s)"

text \<open>
  \<^verbatim>\<open>loadSavedConnection()\<close>. The restore of a MetaMask connection is deferred by a
  timer of one second: the second component tells whether it has been scheduled.
\<close>

definition loadSavedConnection :: "env \<Rightarrow> state \<Rightarrow> state \<times> bool" where
  "loadSavedConnection E s =
     (if has_window E then
        (case localStorage s storage_key of
           None \<Rightarrow> (s, False)
         | Some saved \<Rightarrow>
             if saved = [] then (s, False)
             else
               (case JSON_parse E saved of
                  None \<Rightarrow> (clearSavedConnection E s, False)
                | Some j \<Rightarrow>
                    let s1 = s\<lparr>connection := connection_of_json j\<rparr> in
                    (case connection s1 of
                       None \<Rightarrow> (s1, False)
                     | Some c \<Rightarrow>
                         if wtype c = Some METAMASK then (s1, True)
                         else if wtype c = Some HASHPACK then (restoreHashPackConnection E s1, False)
                         else (s1, False))))
      else (s, False))"

text \<open>
  \<^verbatim>\<open>restoreMetaMaskConnection()\<close>. \<open>restore_inner\<close> is the inner \<^verbatim>\<open>try\<close> that
  rebuilds provider and signer; \<open>restore_try\<close> is the outer one, whose errors are only
  logged.
\<close>

definition restore_inner :: "env \<Rightarrow> string \<Rightarrow> WalletConnection \<Rightarrow> js_error + WalletConnection" where
  "restore_inner E currentAccount c =
     (let p = new_BrowserProvider E METAMASK in
      andThen (provider_getSigner E p) (\<lambda>sg.
      andThen (provider_getBalance E p (Some currentAccount)) (\<lambda>balanceInEther.
        Inr (c\<lparr>signer := Some sg, provider := Some p, balance := Some balanceInEther\<rparr>))))"

definition restore_try :: "env \<Rightarrow> state \<Rightarrow> js_error + state" where
  "restore_try E s =
     (case window_ethereum E of
        None \<Rightarrow> Inr (clearSavedConnection E s)
      | Some eth \<Rightarrow>
          if \<not> isMetaMask eth then Inr (clearSavedConnection E s)
          else andThen (request eth (eth_accounts eth)) (\<lambda>accounts.
            case accounts of
              Some (a # _) \<Rightarrow>
                let currentAccount = toLowerCase a in
                (case connection s of
                   None \<Rightarrow> Inr (clearSavedConnection E s)
                 | Some c \<Rightarrow>
                     (case address c of
                        None \<Rightarrow> Inl TypeError
                      | Some saved \<Rightarrow>
                          if currentAccount = toLowerCase saved then
                            (case restore_inner E currentAccount c of
                               Inr restoredConnection \<Rightarrow>
                                 Inr (setupMetaMaskListeners E
                                        (emit (Ev_connected (Some restoredConnection))
                                           (saveConnection E (s\<lparr>connection := Some restoredConnection\<rparr>))))
                             | Inl restoreError \<Rightarrow> Inr (clearSavedConnection E s))
                          else Inr (clearSavedConnection E s)))
            | _ \<Rightarrow> Inr (clearSavedConnection E s)))"

definition restoreMetaMaskConnection :: "env \<Rightarrow> state \<Rightarrow> state" where
  "restoreMetaMaskConnection E s = (case restore_try E s of Inr s' \<Rightarrow> s' | Inl e \<Rightarrow> s)"

text \<open>
  The constructor: in a browser \<^verbatim>\<open>initializeHederaClient()\<close>, whose
  \<^verbatim>\<open>new Client\<close> can throw (then nothing is loaded and there is no connector), then
  \<^verbatim>\<open>loadSavedConnection()\<close>. \<open>startup\<close> is the start of the page once the timer of
  the restore has fired.
\<close>

definition initial_state :: "(string \<rightharpoonup> string) \<Rightarrow> state" where
  "initial_state store =
     \<lparr>connection = None, localStorage = store, emitted = [], hederaClient = False,
      walletConnectProvider = None, hashPackConnector = False, hederaWalletConnectProvider = False,
      ethereum_listeners = 0, walletConnect_listeners = 0\<rparr>"

definition initializeHederaClient :: "env \<Rightarrow> state \<Rightarrow> js_error + state" where
  "initializeHederaClient E s =
     (case new_Client E (hedera_network E) of
        Inl e \<Rightarrow> Inl e
      | Inr _ \<Rightarrow> Inr (s\<lparr>hederaClient := True\<rparr>))"

definition constructor :: "env \<Rightarrow> (string \<rightharpoonup> string) \<Rightarrow> js_error + state \<times> bool" where
  "constructor E store =
     (if has_window E then
        (case initializeHederaClient E (initial_state store) of
           Inl e \<Rightarrow> Inl e
         | Inr s \<Rightarrow> Inr (loadSavedConnection E s))
      else Inr (initial_state store, False))"

definition startup :: "env \<Rightarrow> (string \<rightharpoonup> string) \<Rightarrow> js_error + state" where
  "startup E store =
     (case constructor E store of
        Inl e \<Rightarrow> Inl e
      | Inr (s, True) \<Rightarrow> Inr (restoreMetaMaskConnection E s)
      | Inr (s, False) \<Rightarrow> Inr s)"

section \<open>Connecting\<close>

text \<open>
  \<^verbatim>\<open>connectHashPackWalletConnect()\<close>. The connector created at the start stays in
  \<^verbatim>\<open>hashPackConnector\<close> when a later step throws; the balance query has its own
  \<^verbatim>\<open>try\<close> and leaves \<^verbatim>\<open>'0'\<close> behind when it fails.
\<close>

definition hashpack_balance :: "env \<Rightarrow> state \<Rightarrow> string \<Rightarrow> string" where
  "hashpack_balance E s account =
     (if hederaClient s
      then (case hedera_balance E (Some account) of Inr b \<Rightarrow> b | Inl e \<Rightarrow> ''0'')
      else ''0'')"

definition connectHashPackWalletConnect :: "env \<Rightarrow> state \<Rightarrow> (js_error + WalletConnection) \<times> state" where
  "connectHashPackWalletConnect E s =
     (let s1 = s\<lparr>hashPackConnector := True\<rparr> in
      case andThen (hashpack_init E) (\<lambda>_. hashpack_connectExtension E) of
        Inl e \<Rightarrow> (Inl e, s1)
      | Inr _ \<Rightarrow>
          (case hashpack_signers E of
             [] \<Rightarrow> (Inl (Error ''No signers available after connection''), s1)
           | account # _ \<Rightarrow>
               let s2 = s1\<lparr>hederaWalletConnectProvider := True\<rparr>;
                   c = \<lparr>wtype = Some HASHPACK, accountId = Some account, address = Some account,
                        signer = None, provider = None,
                        balance = Some (hashpack_balance E s2 account),
                        network = Some (hedera_network E),
                        chainId = map_option (\<lambda>n. Js (JNumber (nc_chainId n)))
                                    (HEDERA_NETWORKS (hedera_network E))\<rparr>
               in (Inr c, emit (Ev_connected (Some c)) (saveConnection E (s2\<lparr>connection := Some c\<rparr>)))))"

definition connectHashPack :: "env \<Rightarrow> state \<Rightarrow> (js_error + WalletConnection) \<times> state" where
  "connectHashPack E s = connectHashPackWalletConnect E s"

text \<open>
  \<^verbatim>\<open>connectMetaMask()\<close>, in the order of the source: the check that the extension
  answers (whose own \<^verbatim>\<open>catch\<close> is \<open>unlock_catch\<close>), the account request raced
  against the timer, the network check with the switch and, on code 4902, the addition of
  the network, then provider, signer and balance (\<open>metamask_session\<close> is the part
  that follows \<^verbatim>\<open>const account = accounts[0]\<close>).
\<close>

definition unlock_catch :: "js_error \<Rightarrow> js_error + unit" where
  "unlock_catch unlockError =
     (if err_code unlockError = Some 4001
      then Inl (Error ''MetaMask connection was rejected. Please approve the connection request.'')
      else if str_includes (err_message unlockError) ''locked''
      then Inl (Error ''MetaMask is locked. Please unlock MetaMask and try again.'')
      else Inr ())"

definition responsive_check :: "ethereum \<Rightarrow> js_error + unit" where
  "responsive_check eth =
     (if \<not> isMetaMask eth \<or> \<not> request_is_function eth
      then unlock_catch (Error ''MetaMask is not responsive. Please check if MetaMask is unlocked.'')
      else Inr ())"

definition race_requestAccounts :: "ethereum \<Rightarrow> js_error + string list option" where
  "race_requestAccounts eth =
     (if \<not> request_is_function eth then Inl TypeError
      else case eth_requestAccounts eth of
             Resolved accounts \<Rightarrow> Inr accounts
           | Rejected e \<Rightarrow> Inl e
           | Pending \<Rightarrow> Inl (Error ''MetaMask connection timeout. Please try again.''))"

definition add_network :: "env \<Rightarrow> ethereum \<Rightarrow> js_error + unit" where
  "add_network E eth =
     (case HEDERA_NETWORKS (hedera_network E) of
        None \<Rightarrow> Inl TypeError
      | Some networkConfig \<Rightarrow> request eth (wallet_addEthereumChain eth))"

definition switch_network :: "env \<Rightarrow> ethereum \<Rightarrow> js_error + unit" where
  "switch_network E eth =
     (case request eth (wallet_switchEthereumChain eth) of
        Inr _ \<Rightarrow> Inr ()
      | Inl switchError \<Rightarrow>
          if err_code switchError = Some 4902 then add_network E eth else Inl switchError)"

definition expectedChainIdHex :: "env \<Rightarrow> string" where
  "expectedChainIdHex E = ''0x'' @ Number_toString (parseInt (expectedChainId E) None) 16"

definition metamask_session :: "env \<Rightarrow> ethereum \<Rightarrow> string \<Rightarrow> js_error + WalletConnection" where
  "metamask_session E eth account =
     andThen (request eth (eth_chainId eth)) (\<lambda>chain.
     andThen (if chain \<noteq> Some (expectedChainIdHex E) then switch_network E eth else Inr ()) (\<lambda>_.
       let p = new_BrowserProvider E METAMASK in
       andThen (provider_getSigner E p) (\<lambda>sg.
       andThen (provider_getBalance E p (Some account)) (\<lambda>balanceInEther.
         Inr \<lparr>wtype = Some METAMASK, accountId = Some account, address = Some account,
              signer = Some sg, provider = Some p, balance = Some balanceInEther,
              network = Some (hedera_network E),
              chainId = Some (number_value (parseInt (expectedChainId E) None))\<rparr>))))"

definition connectMetaMask_try :: "env \<Rightarrow> js_error + WalletConnection" where
  "connectMetaMask_try E =
     (case get_ethereum E of
        None \<Rightarrow> Inl (Error ''MetaMask is not installed. Please install MetaMask extension.'')
      | Some eth \<Rightarrow>
          if \<not> isMetaMask eth
          then Inl (Error ''MetaMask is not installed. Please install MetaMask extension.'')
          else
            andThen (responsive_check eth) (\<lambda>_.
            andThen (race_requestAccounts eth) (\<lambda>accounts.
              case accounts of
                Some (account # _) \<Rightarrow> metamask_session E eth account
              | _ \<Rightarrow> Inl (Error ''No accounts found. Please make sure you have accounts in MetaMask.''))))"

text \<open>The \<^verbatim>\<open>catch\<close> of \<^verbatim>\<open>connectMetaMask\<close>: the error thrown on, and the state.\<close>

definition falsy_var :: "string option \<Rightarrow> bool" where
  "falsy_var v = (case v of None \<Rightarrow> True | Some x \<Rightarrow> x = [])"

definition connectMetaMask_catch :: "env \<Rightarrow> js_error \<Rightarrow> state \<Rightarrow> js_error \<times> state" where
  "connectMetaMask_catch E error s =
     (let m = err_message error in
      if is_Error error \<and> str_includes m ''rejected''
      then (Error ''MetaMask connection was rejected. Please approve the connection request.'', s)
      else if is_Error error \<and> str_includes m ''timeout''
      then (Error ''MetaMask connection timeout. Please try again.'', s)
      else if is_Error error \<and> str_includes m ''No accounts found''
      then (Error ''No accounts found in MetaMask. Please add an account and try again.'', s)
      else if is_Error error \<and> str_includes m ''not responsive''
      then (Error ''MetaMask is not responding. Please check if MetaMask is unlocked and try again.'', s)
      else if is_Error error \<and> str_includes m ''environment''
      then (Error ''Configuration issue detected. Please check your environment variables.'', s)
      else
        let s1 = (if is_Error error \<and> str_includes m ''timeout'' then resetConnectionState E s else s) in
        if falsy_var (NEXT_PUBLIC_METAMASK_CHAIN_ID E) \<or> falsy_var (NEXT_PUBLIC_HEDERA_NETWORK E)
        then (Error ''Configuration error: Missing required environment variables. Please check your .env.local file.'', s1)
        else (error, s1))"

definition connectMetaMask :: "env \<Rightarrow> state \<Rightarrow> (js_error + WalletConnection) \<times> state" where
  "connectMetaMask E s =
     (case connectMetaMask_try E of
        Inr c \<Rightarrow>
          (Inr c, setupMetaMaskListeners E
                    (emit (Ev_connected (Some c)) (saveConnection E (s\<lparr>connection := Some c\<rparr>))))
      | Inl error \<Rightarrow> (case connectMetaMask_catch E error s of (e, s1) \<Rightarrow> (Inl e, s1)))"

text \<open>
  \<^verbatim>\<open>connectWalletConnect()\<close>. The provider is created once and kept (a new provider
  has no listeners yet); the first account must be truthy.
\<close>

definition walletconnect_session :: "env \<Rightarrow> WalletProvider \<Rightarrow> js_error + WalletConnection" where
  "walletconnect_session E wp =
     (if \<not> has_connect wp then Inl (Error ''WalletConnect provider not properly initialized'')
      else
        andThen (wc_connect E) (\<lambda>_.
          if \<not> has_request wp then Inl (Error ''WalletConnect provider request method not available'')
          else
            andThen (wc_eth_accounts E) (\<lambda>accounts.
              case accounts of
                [] \<Rightarrow> Inl (Error ''No accounts found'')
              | account # _ \<Rightarrow>
                  if account = [] then Inl (Error ''No accounts found'')
                  else
                    let p = new_BrowserProvider E WALLETCONNECT in
                    andThen (provider_getSigner E p) (\<lambda>sg.
                    andThen (provider_getBalance E p (Some account)) (\<lambda>balanceInEther.
                      Inr \<lparr>wtype = Some WALLETCONNECT, accountId = Some account, address = Some account,
                           signer = Some sg, provider = Some p, balance = Some balanceInEther,
                           network = Some (hedera_network E),
                           chainId = Some (number_value (parseInt (expectedChainId E) None))\<rparr>)))))"

definition connectWalletConnect :: "env \<Rightarrow> state \<Rightarrow> (js_error + WalletConnection) \<times> state" where
  "connectWalletConnect E s =
     (if falsy_var (NEXT_PUBLIC_WALLETCONNECT_PROJECT_ID E)
      then (Inl (Error ''WalletConnect Project ID is missing. Please check your environment variables.''), s)
      else
        case (case walletConnectProvider s of
                Some wp \<Rightarrow> Inr (wp, s)
              | None \<Rightarrow>
                  (case EthereumProvider_init E of
                     Inl e \<Rightarrow> Inl e
                   | Inr wp \<Rightarrow> Inr (wp, s\<lparr>walletConnectProvider := Some wp, walletConnect_listeners := 0\<rparr>))) of
          Inl e \<Rightarrow> (Inl e, s)
        | Inr (wp, s1) \<Rightarrow>
            (case walletconnect_session E wp of
               Inl e \<Rightarrow> (Inl e, s1)
             | Inr c \<Rightarrow>
                 (Inr c, setupWalletConnectListeners
                           (emit (Ev_connected (Some c)) (saveConnection E (s1\<lparr>connection := Some c\<rparr>))))))"

text \<open>\<^verbatim>\<open>connect(walletType)\<close>: nothing but the dispatch on the requested type.\<close>

fun connect :: "env \<Rightarrow> WalletType \<Rightarrow> state \<Rightarrow> (js_error + WalletConnection) \<times> state" where
  "connect E HASHPACK s = connectHashPack E s"
| "connect E METAMASK s = connectMetaMask E s"
| "connect E WALLETCONNECT s = connectWalletConnect E s"


section \<open>A concrete page for the worked examples\<close>

text \<open>
  The writer of compact JSON text, and a reader that recognises the text of the documents
  it is given. The theorems below hold for every pair of \<open>JSON_stringify\<close> and
  \<open>JSON_parse\<close>; this pair only serves the worked examples.
\<close>

definition quote :: "string \<Rightarrow> string" where
  "quote s =
     CHR 0x22 # concat (map (\<lambda>c. if c = CHR 0x22 \<or> c = CHR 0x5C then [CHR 0x5C, c] else [c]) s) @ [CHR 0x22]"

fun commas :: "string list \<Rightarrow> string" where
  "commas [] = []"
| "commas [x] = x"
| "commas (x # y # ys) = x @ '','' @ commas (y # ys)"

fun json_text :: "json \<Rightarrow> string" where
  "json_text JNull = ''null''"
| "json_text (JBool b) = (if b then ''true'' else ''false'')"
| "json_text (JNumber n) = Number_toString (Some n) 10"
| "json_text (JString s) = quote s"
| "json_text (JArray xs) = ''['' @ commas (map json_text xs) @ '']''"
| "json_text (JObject kvs) = ''{'' @ commas (map (\<lambda>(k, v). quote k @ '':'' @ json_text v) kvs) @ ''}''"

definition read_among :: "json list \<Rightarrow> string \<Rightarrow> json option" where
  "read_among docs t = find (\<lambda>j. json_text j = t) docs"

definition demo_ethereum :: ethereum where
  "demo_ethereum =
     \<lparr>isMetaMask = True, request_is_function = True,
      eth_chainId_probe = Inr (Some ''0x128''),
      eth_requestAccounts = Resolved (Some [''0xABC1'']),
      eth_chainId = Inr (Some ''0x128''),
      wallet_switchEthereumChain = Inr (),
      wallet_addEthereumChain = Inr (),
      eth_accounts = Inr (Some [''0xABC1''])\<rparr>"

definition demo_signer :: handle where
  "demo_signer = Handle True (JObject [(''provider'', JObject []), (''address'', JString ''0xABC1'')])"

definition demo_provider :: handle where
  "demo_provider = Handle True (JObject [])"

definition demo_metamask_connection :: WalletConnection where
  "demo_metamask_connection =
     \<lparr>wtype = Some METAMASK, accountId = Some ''0xABC1'', address = Some ''0xABC1'',
      signer = Some demo_signer, provider = Some demo_provider, balance = Some ''1.5'',
      network = Some ''testnet'', chainId = Some (Js (JNumber 296))\<rparr>"

definition demo_walletconnect_connection :: WalletConnection where
  "demo_walletconnect_connection = demo_metamask_connection\<lparr>wtype := Some WALLETCONNECT\<rparr>"

definition demo_hashpack_connection :: WalletConnection where
  "demo_hashpack_connection =
     \<lparr>wtype = Some HASHPACK, accountId = Some ''0.0.1234'', address = Some ''0.0.1234'',
      signer = None, provider = None, balance = Some ''100'',
      network = Some ''testnet'', chainId = Some (Js (JNumber 296))\<rparr>"

definition mismatched_connection :: WalletConnection where
  "mismatched_connection = demo_metamask_connection\<lparr>accountId := Some ''0xDEF2''\<rparr>"

definition nan_connection :: WalletConnection where
  "nan_connection = demo_walletconnect_connection\<lparr>chainId := Some JsNaN\<rparr>"

definition demo_documents :: "json list" where
  "demo_documents =
     [connection_json demo_metamask_connection, connection_json demo_walletconnect_connection,
      connection_json demo_hashpack_connection, connection_json mismatched_connection,
      connection_json nan_connection]"

definition demo_walletProvider :: WalletProvider where
  "demo_walletProvider = \<lparr>has_connect = True, has_disconnect = True, has_request = True, has_on = True\<rparr>"

definition demo_env :: env where
  "demo_env =
     \<lparr>has_window = True,
      NEXT_PUBLIC_HEDERA_NETWORK = Some ''testnet'',
      NEXT_PUBLIC_METAMASK_CHAIN_ID = Some ''296'',
      NEXT_PUBLIC_WALLETCONNECT_PROJECT_ID = Some ''0123456789abcdef0123456789abcdef'',
      JSON_stringify = json_text,
      JSON_parse = read_among demo_documents,
      window_ethereum = Some demo_ethereum,
      new_BrowserProvider = (\<lambda>t. demo_provider),
      ethers_getSigner = (\<lambda>h. Inr demo_signer),
      ethers_getBalance = (\<lambda>h a. Inr ''1.5''),
      new_Client = (\<lambda>n. Inr ()),
      hedera_balance = (\<lambda>a. Inr ''100''),
      hashpack_init = Inr (),
      hashpack_connectExtension = Inr (),
      hashpack_signers = [''0.0.1234''],
      EthereumProvider_init = Inr demo_walletProvider,
      wc_connect = Inr (),
      wc_eth_accounts = Inr [''0xABC1''],
      wc_disconnect = Inr ()\<rparr>"

definition demo_state :: "WalletConnection \<Rightarrow> state" where
  "demo_state c =
     (initial_state [storage_key \<mapsto> json_text (connection_json c)])
       \<lparr>connection := Some c, hederaClient := True\<rparr>"

definition failing_teardown_env :: env where
  "failing_teardown_env = demo_env\<lparr>wc_disconnect := Inl (Error ''No matching key'')\<rparr>"

definition walletconnect_state :: state where
  "walletconnect_state =
     (demo_state demo_walletconnect_connection)
       \<lparr>walletConnectProvider := Some demo_walletProvider, walletConnect_listeners := Suc 0\<rparr>"

definition absent_env :: env where
  "absent_env = demo_env\<lparr>window_ethereum := None\<rparr>"

definition locked_env :: env where
  "locked_env = demo_env\<lparr>window_ethereum :=
     Some (demo_ethereum\<lparr>eth_accounts := Inl (JsError True (Some (-32603)) ''MetaMask is locked'')\<rparr>)\<rparr>"

definition no_accounts_env :: env where
  "no_accounts_env = demo_env\<lparr>window_ethereum := Some (demo_ethereum\<lparr>eth_accounts := Inr (Some [])\<rparr>)\<rparr>"

definition other_account_env :: env where
  "other_account_env = demo_env\<lparr>window_ethereum := Some (demo_ethereum\<lparr>eth_accounts := Inr (Some [''0xDEF2''])\<rparr>)\<rparr>"

definition no_signer_env :: env where
  "no_signer_env = demo_env\<lparr>ethers_getSigner := \<lambda>h. Inl (Error ''unknown account'')\<rparr>"


definition connected_walletconnect_state :: state where
  "connected_walletconnect_state = snd (connect failing_teardown_env WALLETCONNECT (initial_state Map.empty))"

definition reconnected_walletconnect_state :: state where
  "reconnected_walletconnect_state =
     snd (connect demo_env WALLETCONNECT
            (snd (disconnect demo_env (snd (connect demo_env WALLETCONNECT (initial_state Map.empty))))))"

definition mismatched_store :: "string \<rightharpoonup> string" where
  "mismatched_store = [storage_key \<mapsto> json_text (connection_json mismatched_connection)]"

definition demo_store :: "string \<rightharpoonup> string" where
  "demo_store = [storage_key \<mapsto> json_text (connection_json demo_metamask_connection)]"


section \<open>Properties\<close>

lemmas demo_defs = demo_env_def demo_state_def initial_state_def demo_metamask_connection_def
  demo_walletconnect_connection_def demo_hashpack_connection_def demo_ethereum_def
  demo_signer_def demo_provider_def demo_walletProvider_def

subsection \<open>Disconnecting without a session\<close>

text \<open>
  Claim C9. When no session is current, \<^verbatim>\<open>disconnect()\<close> does nothing: it returns
  normally and the whole state (the in-memory connection, the storage with the persisted
  descriptor, the log of emitted events) is the one it started from.
\<close>

theorem disconnect_without_session_is_noop:
  "connection s = None \<Longrightarrow> disconnect E s = (Inr (), s)"
  by (simp add: disconnect_def)

theorem disconnect_without_session_is_noop_witness:
  "connection (initial_state Map.empty) = None \<and>
   disconnect demo_env (initial_state Map.empty) = (Inr (), initial_state Map.empty)"
  using disconnect_without_session_is_noop [of "initial_state Map.empty" demo_env]
  by (simp add: initial_state_def)

subsection \<open>The balance never fails on a backend error\<close>

text \<open>
  Claim C10. \<^verbatim>\<open>getBalance()\<close> throws only when there is no connection. With a
  connection it always returns a string: \<^verbatim>\<open>'0'\<close> when the balance query of the
  ledger client or of the provider throws, and the cached balance (or \<^verbatim>\<open>'0'\<close>) when
  there is neither a ledger client for a HashPack connection nor a provider for another
  one.
\<close>

theorem getBalance_swallows_backend_failure:
  "(connection s = None \<longrightarrow> getBalance E s = Inl (Error ''No wallet connected'')) \<and>
   (\<forall>c. connection s = Some c \<longrightarrow>
      (\<exists>b. getBalance E s = Inr b) \<and>
      (wtype c = Some HASHPACK \<and> hederaClient s \<and> (\<exists>e. hedera_balance E (accountId c) = Inl e)
         \<longrightarrow> getBalance E s = Inr ''0'') \<and>
      (\<forall>p. wtype c \<noteq> Some HASHPACK \<and> provider c = Some p \<and>
           (\<exists>e. provider_getBalance E p (address c) = Inl e)
         \<longrightarrow> getBalance E s = Inr ''0'') \<and>
      ((wtype c = Some HASHPACK \<and> \<not> hederaClient s) \<or> (wtype c \<noteq> Some HASHPACK \<and> provider c = None)
         \<longrightarrow> getBalance E s = Inr (or_default (balance c) ''0'')))"
  by (auto simp: getBalance_def getBalance_try_def split: sum.splits option.splits)

theorem getBalance_swallows_backend_failure_witness:
  "getBalance demo_env (initial_state Map.empty) = Inl (Error ''No wallet connected'') \<and>
   hedera_balance (demo_env\<lparr>hedera_balance := \<lambda>a. Inl (Error ''unreachable'')\<rparr>)
       (accountId demo_hashpack_connection) = Inl (Error ''unreachable'') \<and>
   getBalance (demo_env\<lparr>hedera_balance := \<lambda>a. Inl (Error ''unreachable'')\<rparr>)
       (demo_state demo_hashpack_connection) = Inr ''0'' \<and>
   provider_getBalance (demo_env\<lparr>ethers_getBalance := \<lambda>h a. Inl (Error ''locked'')\<rparr>)
       demo_provider (address demo_metamask_connection) = Inl (Error ''locked'') \<and>
   getBalance (demo_env\<lparr>ethers_getBalance := \<lambda>h a. Inl (Error ''locked'')\<rparr>)
       (demo_state demo_metamask_connection) = Inr ''0'' \<and>
   getBalance demo_env ((demo_state demo_hashpack_connection)\<lparr>hederaClient := False\<rparr>) = Inr ''100''"
  using getBalance_swallows_backend_failure [of "initial_state Map.empty" demo_env]
    getBalance_swallows_backend_failure [of "demo_state demo_hashpack_connection"
      "demo_env\<lparr>hedera_balance := \<lambda>a. Inl (Error ''unreachable'')\<rparr>"]
    getBalance_swallows_backend_failure [of "demo_state demo_metamask_connection"
      "demo_env\<lparr>ethers_getBalance := \<lambda>h a. Inl (Error ''locked'')\<rparr>"]
    getBalance_swallows_backend_failure [of "(demo_state demo_hashpack_connection)\<lparr>hederaClient := False\<rparr>" demo_env]
  by (simp add: demo_defs provider_getBalance_def)

subsection \<open>The restore check\<close>

text \<open>
  Claim C6, as amended. \<^verbatim>\<open>canRestoreConnection()\<close> is true exactly when there is a
  saved MetaMask connection, the injected provider is present and is MetaMask, its answer
  to \<^verbatim>\<open>eth_accounts\<close> (the request that reports the authorised accounts without
  asking the user) is a non-empty list, and the first account equals the persisted
  \<open>address\<close> member up to the case of the letters; in every other case it is false.
  The answer to \<^verbatim>\<open>eth_requestAccounts\<close>, the request that prompts, plays no part,
  and neither does the persisted \<open>accountId\<close>.
\<close>

theorem canRestoreConnection_iff:
  "(canRestoreConnection E s \<longleftrightarrow>
      (\<exists>c eth a rest saved.
         connection s = Some c \<and> wtype c = Some METAMASK \<and>
         get_ethereum E = Some eth \<and> isMetaMask eth \<and>
         request eth (eth_accounts eth) = Inr (Some (a # rest)) \<and>
         address c = Some saved \<and> toLowerCase a = toLowerCase saved)) \<and>
   canRestoreConnection
     (E\<lparr>window_ethereum := map_option (\<lambda>eth. eth\<lparr>eth_requestAccounts := r\<rparr>) (window_ethereum E)\<rparr>) s
     = canRestoreConnection E s"
proof (rule conjI)
  show "canRestoreConnection E s \<longleftrightarrow>
      (\<exists>c eth a rest saved.
         connection s = Some c \<and> wtype c = Some METAMASK \<and>
         get_ethereum E = Some eth \<and> isMetaMask eth \<and>
         request eth (eth_accounts eth) = Inr (Some (a # rest)) \<and>
         address c = Some saved \<and> toLowerCase a = toLowerCase saved)"
    by (auto simp: canRestoreConnection_def canRestoreConnection_try_def andThen_def
        split: option.splits sum.splits list.splits if_splits)
next
  show "canRestoreConnection
     (E\<lparr>window_ethereum := map_option (\<lambda>eth. eth\<lparr>eth_requestAccounts := r\<rparr>) (window_ethereum E)\<rparr>) s
     = canRestoreConnection E s"
    by (cases "window_ethereum E")
      (auto simp: canRestoreConnection_def canRestoreConnection_try_def andThen_def
        get_ethereum_def request_def split: option.splits sum.splits list.splits if_splits)
qed

text \<open>
  The claim as stated fails: for a stored descriptor whose account identifier is
  \<^verbatim>\<open>0xDEF2\<close> and whose address is \<^verbatim>\<open>0xABC1\<close>, the check is true when the backend
  reports \<^verbatim>\<open>0xABC1\<close>, an account that differs from the persisted identifier.
\<close>

theorem canRestoreConnection_address_counterexample:
  "map_option accountId (connection (fst (loadSavedConnection demo_env (initial_state mismatched_store)))) =
     Some (Some ''0xDEF2'') \<and>
   map_option address (connection (fst (loadSavedConnection demo_env (initial_state mismatched_store)))) =
     Some (Some ''0xABC1'') \<and>
   map_option eth_accounts (window_ethereum demo_env) = Some (Inr (Some [''0xABC1''])) \<and>
   toLowerCase ''0xABC1'' \<noteq> toLowerCase ''0xDEF2'' \<and>
   canRestoreConnection demo_env (fst (loadSavedConnection demo_env (initial_state mismatched_store)))"
  by code_simp

subsection \<open>Unreadable text under the session key\<close>

lemma clearSavedConnection_window:
  "has_window E \<Longrightarrow> clearSavedConnection E s = s\<lparr>localStorage := (localStorage s)(storage_key := None)\<rparr>"
  by (simp add: clearSavedConnection_def)

lemma read_among_garbage: "read_among demo_documents ''not json'' = None"
  by (simp add: read_among_def demo_documents_def connection_json_def object_member_def demo_defs
      quote_def Number_toString_def digits_of.simps)

text \<open>
  Claim C8, as amended. In a browser, when the text stored under the session key is not
  empty and \<^verbatim>\<open>JSON.parse\<close> throws on it, \<^verbatim>\<open>loadSavedConnection()\<close> catches the
  error, removes the key and changes nothing else: no connection is restored, no restore
  is scheduled, no event is emitted. (An empty text is not parsed at all: see the
  counterexample.)
\<close>

theorem loadSavedConnection_unreadable_text:
  assumes "has_window E" and "localStorage s storage_key = Some saved" and "saved \<noteq> []"
    and "JSON_parse E saved = None"
  shows "loadSavedConnection E s = (s\<lparr>localStorage := (localStorage s)(storage_key := None)\<rparr>, False)"
  using assms
  by (simp add: loadSavedConnection_def clearSavedConnection_def)

theorem loadSavedConnection_unreadable_text_witness:
  "has_window demo_env \<and> JSON_parse demo_env ''not json'' = None \<and>
   loadSavedConnection demo_env (initial_state [storage_key \<mapsto> ''not json'']) =
     (initial_state Map.empty, False)"
  using loadSavedConnection_unreadable_text [of demo_env "initial_state [storage_key \<mapsto> ''not json'']" "''not json''"]
    read_among_garbage
  by (simp add: demo_env_def initial_state_def)

text \<open>
  The claim as stated fails on the empty text: it does not deserialize, yet the guard
  \<^verbatim>\<open>if (saved)\<close> treats it as no saved connection and the key stays in the storage.
\<close>

theorem loadSavedConnection_empty_text_counterexample:
  "JSON_parse demo_env [] = None \<and>
   localStorage (fst (loadSavedConnection demo_env (initial_state [storage_key \<mapsto> []]))) storage_key = Some []"
  by (simp add: loadSavedConnection_def initial_state_def read_among_def demo_documents_def
      connection_json_def object_member_def demo_defs quote_def)

subsection \<open>A change of chain\<close>

lemma walletconnect_on_chainChanged_emits_only:
  "walletconnect_on_chainChanged E chainIdStr s = s\<lparr>emitted := emitted s @ [Ev_chainChanged chainIdStr]\<rparr>"
  by (simp add: walletconnect_on_chainChanged_def emit_def)

lemma metamask_on_chainChanged_mismatch:
  "Number_toString (parseInt chainIdStr (Some 16)) 10 \<noteq> expectedChainId E \<Longrightarrow>
   metamask_on_chainChanged E chainIdStr s =
     s\<lparr>emitted := emitted s @ [Ev_chainChanged chainIdStr, Ev_networkMismatch chainIdStr (expectedChainId E)]\<rparr>"
  by (simp add: metamask_on_chainChanged_def emit_def)

lemma decimal_of_0x1: "Number_toString (parseInt ''0x1'' (Some 16)) 10 = ''1''"
  by code_simp

text \<open>
  Claim C4. The listener of the injected provider does what the claim says
  (\<open>metamask_on_chainChanged_mismatch\<close>: one \<^verbatim>\<open>chainChanged\<close>, then one
  \<^verbatim>\<open>networkMismatch\<close> with both values, the connection untouched). The listener of the
  relay provider does not: for a WalletConnect session on chain 296, with 296 the
  expected chain, the notification \<^verbatim>\<open>chainChanged("0x1")\<close> yields the single event
  \<^verbatim>\<open>chainChanged\<close> and no \<^verbatim>\<open>networkMismatch\<close>.
\<close>

theorem walletconnect_chainChanged_without_networkMismatch:
  "connection walletconnect_state = Some demo_walletconnect_connection \<and>
   chainId demo_walletconnect_connection = Some (Js (JNumber 296)) \<and>
   expectedChainId demo_env = ''296'' \<and>
   Number_toString (parseInt ''0x1'' (Some 16)) 10 = ''1'' \<and>
   emitted (walletconnect_on_chainChanged demo_env ''0x1'' walletconnect_state) = [Ev_chainChanged ''0x1''] \<and>
   emitted (metamask_on_chainChanged demo_env ''0x1'' (demo_state demo_metamask_connection)) =
     [Ev_chainChanged ''0x1'', Ev_networkMismatch ''0x1'' ''296'']"
  by (simp add: walletconnect_on_chainChanged_def metamask_on_chainChanged_def emit_def
      walletconnect_state_def demo_defs expectedChainId_def decimal_of_0x1)

subsection \<open>An empty list of accounts\<close>

lemma disconnect_unawaited_whole:
  "(case disconnect_unawaited E s of (s1, rest) \<Rightarrow> rest s1) = snd (disconnect E s)"
  by (auto simp: disconnect_unawaited_def disconnect_def disconnect_finish_def awaits_teardown_def Let_def
      split: option.splits sum.splits)

lemma accountsChanged_empty_one_listener:
  assumes "has_window E" and "connection s = Some c"
    and "\<not> awaits_teardown s c \<or> wc_disconnect E = Inr ()"
  shows "connection (dispatch (Suc 0) (accountsChanged_listener E []) s) = None \<and>
         localStorage (dispatch (Suc 0) (accountsChanged_listener E []) s) storage_key = None \<and>
         emitted (dispatch (Suc 0) (accountsChanged_listener E []) s) =
           emitted s @ [Ev_accountsChanged [], Ev_disconnected (Some c)]"
  using assms
  by (auto simp: dispatch_def accountsChanged_listener_def disconnect_unawaited_def disconnect_def
      disconnect_finish_def awaits_teardown_def emit_def clearSavedConnection_def Let_def
      split: option.splits sum.splits prod.splits)

lemma accountsChanged_empty_registered_twice:
  "walletConnect_listeners reconnected_walletconnect_state = 2 \<and>
   connection reconnected_walletconnect_state = Some demo_walletconnect_connection \<and>
   emitted (walletconnect_accountsChanged demo_env [] reconnected_walletconnect_state) =
     emitted reconnected_walletconnect_state @
       [Ev_accountsChanged [], Ev_accountsChanged [],
        Ev_disconnected (Some demo_walletconnect_connection),
        Ev_disconnected (Some demo_walletconnect_connection)]"
  by code_simp

text \<open>
  Claim C5. With one registration of the listeners and a teardown that does not reject,
  the notification \<^verbatim>\<open>accountsChanged([])\<close> does what the claim says
  (\<open>accountsChanged_empty_one_listener\<close>). It does not when the session is a
  WalletConnect one and \<^verbatim>\<open>walletConnectProvider.disconnect()\<close> rejects: after a
  connect over WalletConnect, the notification leaves the connection in memory and the
  descriptor in the storage, and emits the raw \<^verbatim>\<open>accountsChanged\<close> only, no
  \<^verbatim>\<open>disconnected\<close>.
\<close>

theorem accountsChanged_empty_rejected_teardown:
  "walletConnect_listeners connected_walletconnect_state = 1 \<and>
   connection connected_walletconnect_state = Some demo_walletconnect_connection \<and>
   localStorage connected_walletconnect_state storage_key =
     Some (json_text (connection_json demo_walletconnect_connection)) \<and>
   emitted connected_walletconnect_state = [Ev_connected (Some demo_walletconnect_connection)] \<and>
   wc_disconnect failing_teardown_env = Inl (Error ''No matching key'') \<and>
   connection (walletconnect_accountsChanged failing_teardown_env [] connected_walletconnect_state) =
     Some demo_walletconnect_connection \<and>
   localStorage (walletconnect_accountsChanged failing_teardown_env [] connected_walletconnect_state) storage_key =
     Some (json_text (connection_json demo_walletconnect_connection)) \<and>
   emitted (walletconnect_accountsChanged failing_teardown_env [] connected_walletconnect_state) =
     [Ev_connected (Some demo_walletconnect_connection), Ev_accountsChanged []]"
  by code_simp

subsection \<open>What connecting returns\<close>

lemma andThen_Inr_iff: "andThen r f = Inr y \<longleftrightarrow> (\<exists>x. r = Inr x \<and> f x = Inr y)"
  by (cases r) (simp_all add: andThen_def)

lemma andThen_InrE:
  assumes "andThen r f = Inr y"
  obtains x where "r = Inr x" and "f x = Inr y"
  using assms by (cases r) (simp_all add: andThen_def)

lemma metamask_session_account:
  assumes "metamask_session E eth account = Inr c"
  shows "wtype c = Some METAMASK \<and> accountId c = Some account \<and> address c = Some account"
  using assms
  by (auto simp: metamask_session_def Let_def elim!: andThen_InrE)

lemma connectMetaMask_try_session:
  assumes "connectMetaMask_try E = Inr c"
  shows "\<exists>eth account rest.
           get_ethereum E = Some eth \<and> eth_requestAccounts eth = Resolved (Some (account # rest)) \<and>
           wtype c = Some METAMASK \<and> accountId c = Some account \<and> address c = Some account"
  using assms
  by (auto simp: connectMetaMask_try_def race_requestAccounts_def
      elim!: andThen_InrE dest: metamask_session_account
      split: option.splits if_splits list.splits settled.splits)

lemma walletconnect_session_account:
  assumes "walletconnect_session E wp = Inr c"
  shows "\<exists>account rest. wc_eth_accounts E = Inr (account # rest) \<and> account \<noteq> [] \<and>
           wtype c = Some WALLETCONNECT \<and> accountId c = Some account \<and> address c = Some account"
  using assms
  by (auto simp: walletconnect_session_def Let_def elim!: andThen_InrE
      split: option.splits if_splits list.splits)

lemma connectHashPack_session:
  assumes "connectHashPackWalletConnect E s = (Inr c, s')"
  shows "(\<exists>account rest. hashpack_signers E = account # rest \<and>
           wtype c = Some HASHPACK \<and> accountId c = Some account \<and> address c = Some account) \<and>
         connection s' = Some c \<and> emitted s' = emitted s @ [Ev_connected (Some c)]"
  using assms
  by (auto simp: connectHashPackWalletConnect_def Let_def emit_def saveConnection_def
      split: sum.splits list.splits)

lemma connectMetaMask_state:
  assumes "connectMetaMask E s = (Inr c, s')"
  shows "connectMetaMask_try E = Inr c \<and> connection s' = Some c \<and>
         emitted s' = emitted s @ [Ev_connected (Some c)]"
  using assms
  by (auto simp: connectMetaMask_def emit_def saveConnection_def setupMetaMaskListeners_def
      split: sum.splits prod.splits)

lemma connectWalletConnect_state:
  assumes "connectWalletConnect E s = (Inr c, s')"
  shows "(\<exists>wp. walletconnect_session E wp = Inr c) \<and> connection s' = Some c \<and>
         emitted s' = emitted s @ [Ev_connected (Some c)]"
  using assms
  by (auto simp: connectWalletConnect_def emit_def saveConnection_def setupWalletConnectListeners_def
      split: sum.splits prod.splits option.splits if_splits)

lemma connect_demo_metamask: "fst (connect demo_env METAMASK (initial_state Map.empty)) = Inr demo_metamask_connection"
  by code_simp

lemma connect_demo_hashpack: "fst (connect demo_env HASHPACK ((initial_state Map.empty)\<lparr>hederaClient := True\<rparr>)) = Inr demo_hashpack_connection"
  by code_simp

lemma connect_demo_walletconnect: "fst (connect demo_env WALLETCONNECT (initial_state Map.empty)) = Inr demo_walletconnect_connection"
  by code_simp

lemma connect_success_state:
  assumes "connect E ty s = (Inr c, s')"
  shows "connection s' = Some c \<and> emitted s' = emitted s @ [Ev_connected (Some c)]"
proof (cases ty)
  case HASHPACK
  with assms connectHashPack_session [of E s c s'] show ?thesis
    by (simp add: connectHashPack_def)
next
  case METAMASK
  with assms connectMetaMask_state [of E s c s'] show ?thesis
    by simp
next
  case WALLETCONNECT
  with assms connectWalletConnect_state [of E s c s'] show ?thesis
    by simp
qed

lemma connect_demo_again:
  "fst (connect demo_env METAMASK (demo_state demo_hashpack_connection)) = Inr demo_metamask_connection"
  by code_simp

lemma connect_session_shape:
  assumes "connect E ty s = (Inr c, s')"
  shows "wtype c = Some ty \<and> (\<exists>a. accountId c = Some a \<and> address c = Some a) \<and> connection s' = Some c"
proof (cases ty)
  case HASHPACK
  with assms have "connectHashPackWalletConnect E s = (Inr c, s')"
    by (simp add: connectHashPack_def)
  from connectHashPack_session [OF this] HASHPACK show ?thesis
    by auto
next
  case METAMASK
  with assms have run: "connectMetaMask E s = (Inr c, s')"
    by simp
  from connectMetaMask_state [OF run] have body: "connectMetaMask_try E = Inr c" and cur: "connection s' = Some c"
    by simp_all
  from connectMetaMask_try_session [OF body] cur METAMASK show ?thesis
    by auto
next
  case WALLETCONNECT
  with assms have "connectWalletConnect E s = (Inr c, s')"
    by simp
  from connectWalletConnect_state [OF this] walletconnect_session_account WALLETCONNECT show ?thesis
    by blast
qed


subsection \<open>Connecting while a session is current\<close>

text \<open>
  Claim C1, as amended. \<^verbatim>\<open>connect(walletType)\<close> has no guard on the state of the
  session and no error \<^verbatim>\<open>AlreadyConnecting\<close> or \<^verbatim>\<open>AlreadyConnected\<close>: its result
  is the same whatever the current connection is, it always runs the handshake of the
  requested backend, and when the handshake succeeds the new connection replaces the
  current one and \<^verbatim>\<open>connected\<close> is emitted.
\<close>

theorem connect_ignores_current_session:
  "fst (connect E ty (s\<lparr>connection := c0\<rparr>)) = fst (connect E ty s) \<and>
   (\<forall>c s'. connect E ty s = (Inr c, s') \<longrightarrow>
      connection s' = Some c \<and> emitted s' = emitted s @ [Ev_connected (Some c)])"
proof (rule conjI)
  show "fst (connect E ty (s\<lparr>connection := c0\<rparr>)) = fst (connect E ty s)"
  proof (cases ty)
    case HASHPACK
    then show ?thesis
      by (simp add: connectHashPack_def connectHashPackWalletConnect_def Let_def hashpack_balance_def
          split: sum.splits list.splits)
  next
    case METAMASK
    then show ?thesis
      by (simp add: connectMetaMask_def connectMetaMask_catch_def Let_def split: sum.splits prod.splits)
  next
    case WALLETCONNECT
    then show ?thesis
      by (cases "walletConnectProvider s"; cases "EthereumProvider_init E")
        (auto simp: connectWalletConnect_def split: sum.splits)
  qed
next
  show "\<forall>c s'. connect E ty s = (Inr c, s') \<longrightarrow>
      connection s' = Some c \<and> emitted s' = emitted s @ [Ev_connected (Some c)]"
    using connect_success_state by blast
qed

theorem connect_ignores_current_session_witness:
  "connect demo_env METAMASK (initial_state Map.empty) =
     (Inr demo_metamask_connection, snd (connect demo_env METAMASK (initial_state Map.empty))) \<and>
   connection (snd (connect demo_env METAMASK (initial_state Map.empty))) = Some demo_metamask_connection \<and>
   emitted (snd (connect demo_env METAMASK (initial_state Map.empty))) =
     [Ev_connected (Some demo_metamask_connection)] \<and>
   fst (connect demo_env METAMASK ((initial_state Map.empty)\<lparr>connection := Some demo_hashpack_connection\<rparr>)) =
     Inr demo_metamask_connection"
proof -
  have run: "connect demo_env METAMASK (initial_state Map.empty) =
     (Inr demo_metamask_connection, snd (connect demo_env METAMASK (initial_state Map.empty)))"
    using connect_demo_metamask by (simp add: prod_eq_iff)
  show ?thesis
    using connect_ignores_current_session [where E = demo_env and ty = METAMASK
          and s = "initial_state Map.empty" and ?c0.0 = "Some demo_hashpack_connection"]
      run connect_demo_metamask
    by (simp add: initial_state_def)
qed

text \<open>
  The claim as stated fails: with a HashPack session current, \<^verbatim>\<open>connect\<close> for
  MetaMask is not rejected; it returns the new MetaMask session, which becomes current.
\<close>

theorem connect_while_connected_counterexample:
  "connection (demo_state demo_hashpack_connection) = Some demo_hashpack_connection \<and>
   fst (connect demo_env METAMASK (demo_state demo_hashpack_connection)) = Inr demo_metamask_connection \<and>
   connection (snd (connect demo_env METAMASK (demo_state demo_hashpack_connection))) =
     Some demo_metamask_connection"
proof -
  have "connect demo_env METAMASK (demo_state demo_hashpack_connection) =
      (Inr demo_metamask_connection, snd (connect demo_env METAMASK (demo_state demo_hashpack_connection)))"
    using connect_demo_again by (simp add: prod_eq_iff)
  from connect_success_state [OF this] connect_demo_again show ?thesis
    by (simp add: demo_state_def)
qed

subsection \<open>What a failed restore does to the descriptor\<close>

lemma lower_demo_account: "toLowerCase ''0xABC1'' = ''0xabc1''"
  by code_simp

lemma lower_other_account: "toLowerCase ''0xDEF2'' = ''0xdef2''"
  by code_simp

text \<open>
  Claim C2, as amended. In a browser, \<^verbatim>\<open>restoreMetaMaskConnection()\<close> leaves the
  persisted descriptor in the storage only when the \<^verbatim>\<open>eth_accounts\<close> request itself
  throws (a locked or failing backend) or the loaded connection has no address; then
  nothing changes at all. It removes the descriptor, and changes nothing else, when the
  injected provider is absent or is not MetaMask, when no account is reported, when no
  connection is loaded, when the first account differs from the persisted address (up to
  case), and when provider, signer or balance cannot be rebuilt. In all these cases the
  connection read from the storage stays in memory and no \<^verbatim>\<open>connected\<close> event is
  emitted. Only when the account matches and the rebuild succeeds is the connection
  replaced by the rebuilt one, saved again, and \<^verbatim>\<open>connected\<close> emitted.
\<close>

theorem restoreMetaMaskConnection_descriptor:
  assumes "has_window E"
  shows
   "(window_ethereum E = None \<longrightarrow>
       restoreMetaMaskConnection E s = s\<lparr>localStorage := (localStorage s)(storage_key := None)\<rparr>) \<and>
    (\<forall>eth. window_ethereum E = Some eth \<longrightarrow>
       (\<not> isMetaMask eth \<longrightarrow>
          restoreMetaMaskConnection E s = s\<lparr>localStorage := (localStorage s)(storage_key := None)\<rparr>) \<and>
       (isMetaMask eth \<longrightarrow>
          ((\<exists>e. request eth (eth_accounts eth) = Inl e) \<longrightarrow> restoreMetaMaskConnection E s = s) \<and>
          (request eth (eth_accounts eth) = Inr None \<or> request eth (eth_accounts eth) = Inr (Some []) \<longrightarrow>
             restoreMetaMaskConnection E s = s\<lparr>localStorage := (localStorage s)(storage_key := None)\<rparr>) \<and>
          (\<forall>a rest. request eth (eth_accounts eth) = Inr (Some (a # rest)) \<longrightarrow>
             (connection s = None \<longrightarrow>
                restoreMetaMaskConnection E s = s\<lparr>localStorage := (localStorage s)(storage_key := None)\<rparr>) \<and>
             (\<forall>c. connection s = Some c \<longrightarrow>
                (address c = None \<longrightarrow> restoreMetaMaskConnection E s = s) \<and>
                (\<forall>saved. address c = Some saved \<longrightarrow>
                   (toLowerCase a \<noteq> toLowerCase saved \<longrightarrow>
                      restoreMetaMaskConnection E s = s\<lparr>localStorage := (localStorage s)(storage_key := None)\<rparr>) \<and>
                   (toLowerCase a = toLowerCase saved \<longrightarrow>
                      ((\<exists>e. restore_inner E (toLowerCase a) c = Inl e) \<longrightarrow>
                         restoreMetaMaskConnection E s =
                           s\<lparr>localStorage := (localStorage s)(storage_key := None)\<rparr>) \<and>
                      (\<forall>c'. restore_inner E (toLowerCase a) c = Inr c' \<longrightarrow>
                         connection (restoreMetaMaskConnection E s) = Some c' \<and>
                         localStorage (restoreMetaMaskConnection E s) storage_key =
                           Some (JSON_stringify E (connection_json c')) \<and>
                         emitted (restoreMetaMaskConnection E s) = emitted s @ [Ev_connected (Some c')])))))))"
  using assms
  by (auto simp: restoreMetaMaskConnection_def restore_try_def clearSavedConnection_def andThen_def Let_def
      saveConnection_def emit_def setupMetaMaskListeners_def
      split: sum.splits option.splits list.splits)

theorem restoreMetaMaskConnection_descriptor_witness:
  "has_window absent_env \<and> window_ethereum absent_env = None \<and>
   restoreMetaMaskConnection absent_env (demo_state demo_metamask_connection) =
     (demo_state demo_metamask_connection)\<lparr>localStorage := Map.empty\<rparr> \<and>
   restoreMetaMaskConnection locked_env (demo_state demo_metamask_connection) =
     demo_state demo_metamask_connection \<and>
   restoreMetaMaskConnection no_accounts_env (demo_state demo_metamask_connection) =
     (demo_state demo_metamask_connection)\<lparr>localStorage := Map.empty\<rparr> \<and>
   restoreMetaMaskConnection other_account_env (demo_state demo_metamask_connection) =
     (demo_state demo_metamask_connection)\<lparr>localStorage := Map.empty\<rparr> \<and>
   restoreMetaMaskConnection no_signer_env (demo_state demo_metamask_connection) =
     (demo_state demo_metamask_connection)\<lparr>localStorage := Map.empty\<rparr> \<and>
   connection (restoreMetaMaskConnection demo_env (demo_state demo_metamask_connection)) =
     Some demo_metamask_connection \<and>
   emitted (restoreMetaMaskConnection demo_env (demo_state demo_metamask_connection)) =
     [Ev_connected (Some demo_metamask_connection)]"
  using restoreMetaMaskConnection_descriptor [of absent_env "demo_state demo_metamask_connection"]
    restoreMetaMaskConnection_descriptor [of locked_env "demo_state demo_metamask_connection"]
    restoreMetaMaskConnection_descriptor [of no_accounts_env "demo_state demo_metamask_connection"]
    restoreMetaMaskConnection_descriptor [of other_account_env "demo_state demo_metamask_connection"]
    restoreMetaMaskConnection_descriptor [of no_signer_env "demo_state demo_metamask_connection"]
    restoreMetaMaskConnection_descriptor [of demo_env "demo_state demo_metamask_connection"]
  by (simp add: absent_env_def locked_env_def no_accounts_env_def other_account_env_def no_signer_env_def
      demo_defs request_def restore_inner_def provider_getSigner_def provider_getBalance_def andThen_def
      lower_demo_account lower_other_account)

text \<open>
  The claim as stated fails: at the start of a page that holds a descriptor and has no
  injected provider the descriptor is removed (and the connection read from it stays in
  memory); the same happens when the provider reports no account.
\<close>

theorem restore_backend_absent_counterexample:
  "demo_store storage_key \<noteq> None \<and>
   window_ethereum absent_env = None \<and>
   \<not> isl (startup absent_env demo_store) \<and>
   localStorage (projr (startup absent_env demo_store)) storage_key = None \<and>
   connection (projr (startup absent_env demo_store)) \<noteq> None \<and>
   map_option eth_accounts (window_ethereum no_accounts_env) = Some (Inr (Some [])) \<and>
   \<not> isl (startup no_accounts_env demo_store) \<and>
   localStorage (projr (startup no_accounts_env demo_store)) storage_key = None"
  by code_simp

subsection \<open>Saving and loading\<close>






















end
